theory Spec2Isabelle
  imports Complex_Main
begin

section \<open>Errors\<close>

text \<open>
  Every exception of the program is a value. \<open>ValueError\<close> is Python's own (pydantic's
  \<open>ValidationError\<close> is a subclass of it), \<open>KeyError\<close> is the failed dictionary
  lookup, \<open>DomainError\<close> and \<open>ConvergenceError\<close> are the error kinds of the kernel.
\<close>

datatype error =
  ValueError | KeyError | IndexError | TypeError | DomainError | ConvergenceError

section \<open>Vectors and matrices\<close>

text \<open>
  The kernel works on numpy arrays of floats. Floats are modelled as real numbers (no
  rounding), a 3-vector as \<open>Vec3\<close>, a 3x3 matrix by its three rows, a 6-element state
  vector as position and velocity.
\<close>

datatype vec3 = Vec3 real real real

datatype mat3 = Mat3 vec3 vec3 vec3

datatype state6 = State6 vec3 vec3

fun vadd :: "vec3 \<Rightarrow> vec3 \<Rightarrow> vec3" where
  "vadd (Vec3 a b c) (Vec3 d e f) = Vec3 (a + d) (b + e) (c + f)"

fun vsub :: "vec3 \<Rightarrow> vec3 \<Rightarrow> vec3" where
  "vsub (Vec3 a b c) (Vec3 d e f) = Vec3 (a - d) (b - e) (c - f)"

fun vscale :: "real \<Rightarrow> vec3 \<Rightarrow> vec3" where
  "vscale k (Vec3 a b c) = Vec3 (k * a) (k * b) (k * c)"

fun dot :: "vec3 \<Rightarrow> vec3 \<Rightarrow> real" where
  "dot (Vec3 a b c) (Vec3 d e f) = a * d + b * e + c * f"

fun cross :: "vec3 \<Rightarrow> vec3 \<Rightarrow> vec3" where
  "cross (Vec3 a b c) (Vec3 d e f) = Vec3 (b * f - c * e) (c * d - a * f) (a * e - b * d)"

definition norm3 :: "vec3 \<Rightarrow> real" where
  "norm3 v = sqrt (dot v v)"

fun row :: "mat3 \<Rightarrow> nat \<Rightarrow> vec3" where
  "row (Mat3 r0 r1 r2) i = (if i = 0 then r0 else if i = 1 then r1 else r2)"

fun comp :: "vec3 \<Rightarrow> nat \<Rightarrow> real" where
  "comp (Vec3 a b c) j = (if j = 0 then a else if j = 1 then b else c)"

definition entry :: "mat3 \<Rightarrow> nat \<Rightarrow> nat \<Rightarrow> real" where
  \<comment> \<open>\<open>r[i, j]\<close>\<close>
  "entry m i j = comp (row m i) j"

fun transpose3 :: "mat3 \<Rightarrow> mat3" where
  "transpose3 (Mat3 (Vec3 a b c) (Vec3 d e f) (Vec3 g h i)) =
     Mat3 (Vec3 a d g) (Vec3 b e h) (Vec3 c f i)"

fun mat_vec :: "mat3 \<Rightarrow> vec3 \<Rightarrow> vec3" where
  "mat_vec (Mat3 r0 r1 r2) v = Vec3 (dot r0 v) (dot r1 v) (dot r2 v)"

fun mat_mul :: "mat3 \<Rightarrow> mat3 \<Rightarrow> mat3" where
  "mat_mul (Mat3 r0 r1 r2) m =
     (let t = transpose3 m in Mat3 (mat_vec t r0) (mat_vec t r1) (mat_vec t r2))"

definition identity3 :: mat3 where
  "identity3 = Mat3 (Vec3 1 0 0) (Vec3 0 1 0) (Vec3 0 0 1)"

definition orthonormal :: "mat3 \<Rightarrow> bool" where
  "orthonormal m \<longleftrightarrow>
     mat_mul m (transpose3 m) = identity3 \<and> mat_mul (transpose3 m) m = identity3"

fun state_list :: "state6 \<Rightarrow> real list" where
  "state_list (State6 (Vec3 a b c) (Vec3 d e f)) = [a, b, c, d, e, f]"

section \<open>Elementary rotations (brahe.attitude)\<close>

text \<open>
  Modelled from the spec: \<open>brahe/attitude.py\<close> is not among the sources, only its test
  is. The three matrices are those of section 4.2 of the specification; the angle is in
  degrees when the flag is set.
\<close>

definition to_radians :: "real \<Rightarrow> bool \<Rightarrow> real" where
  "to_radians angle use_degrees = (if use_degrees then angle * pi / 180 else angle)"

definition Rx :: "real \<Rightarrow> bool \<Rightarrow> mat3" where
  "Rx angle use_degrees =
     (let t = to_radians angle use_degrees
      in Mat3 (Vec3 1 0 0) (Vec3 0 (cos t) (sin t)) (Vec3 0 (- sin t) (cos t)))"

definition Ry :: "real \<Rightarrow> bool \<Rightarrow> mat3" where
  "Ry angle use_degrees =
     (let t = to_radians angle use_degrees
      in Mat3 (Vec3 (cos t) 0 (- sin t)) (Vec3 0 1 0) (Vec3 (sin t) 0 (cos t)))"

definition Rz :: "real \<Rightarrow> bool \<Rightarrow> mat3" where
  "Rz angle use_degrees =
     (let t = to_radians angle use_degrees
      in Mat3 (Vec3 (cos t) (sin t) 0) (Vec3 (- sin t) (cos t) 0) (Vec3 0 0 1))"

section \<open>Relative motion: the RTN frame (brahe.relorbits)\<close>

text \<open>
  Modelled from the spec: \<open>brahe/relorbits.py\<close> is not among the sources, only its test
  is. Section 4.5 of the specification gives the triad
  \<open>R = r / |r|\<close>, \<open>N = (r \<times> v) / |r \<times> v|\<close>, \<open>T = N \<times> R\<close>, the matrix
  \<open>rtn_to_eci\<close> with columns R, T, N and \<open>eci_to_rtn\<close> as its transpose. A chief state
  with zero position or zero angular momentum is a \<open>DomainError\<close>.
\<close>

fun pos :: "state6 \<Rightarrow> vec3" where "pos (State6 r v) = r"
fun vel :: "state6 \<Rightarrow> vec3" where "vel (State6 r v) = v"

definition degenerate :: "state6 \<Rightarrow> bool" where
  "degenerate x \<longleftrightarrow> norm3 (pos x) = 0 \<or> norm3 (cross (pos x) (vel x)) = 0"

definition rRTNtoECI :: "state6 \<Rightarrow> error + mat3" where
  "rRTNtoECI x =
     (if degenerate x then Inl DomainError
      else
        let r = pos x; v = vel x;
            R = vscale (1 / norm3 r) r;
            N = vscale (1 / norm3 (cross r v)) (cross r v);
            T = cross N R
        in Inr (transpose3 (Mat3 R T N)))"

definition rECItoRTN :: "state6 \<Rightarrow> error + mat3" where
  "rECItoRTN x = (case rRTNtoECI x of Inl e \<Rightarrow> Inl e | Inr m \<Rightarrow> Inr (transpose3 m))"

text \<open>
  Modelled from the spec: the state transforms of section 4.5, which \<open>relorbits.py\<close>
  (not among the sources) implements. The angular velocity is
  \<open>\<omega> = (r \<times> v) / |r|\<^sup>2\<close> of the chief, the forward transform is
  \<open>\<Delta>r_rtn = eci_to_rtn \<cdot> (r_t - r)\<close>,
  \<open>\<Delta>v_rtn = eci_to_rtn \<cdot> (v_t - v) - \<omega> \<times> \<Delta>r_rtn\<close>, and the inverse is
  \<open>\<Delta>r_eci = rtn_to_eci \<cdot> \<Delta>r_rtn\<close>,
  \<open>\<Delta>v_eci = rtn_to_eci \<cdot> (\<Delta>v_rtn + \<omega> \<times> \<Delta>r_rtn)\<close>, added to the chief's state to
  give the target's absolute state.
\<close>

definition omega_chief :: "state6 \<Rightarrow> vec3" where
  "omega_chief x = vscale (1 / (norm3 (pos x))\<^sup>2) (cross (pos x) (vel x))"

definition sECItoRTN :: "state6 \<Rightarrow> state6 \<Rightarrow> error + state6" where
  "sECItoRTN x xt =
     (case rECItoRTN x of
        Inl e \<Rightarrow> Inl e
      | Inr m \<Rightarrow>
          let dr_rtn = mat_vec m (vsub (pos xt) (pos x));
              dv_rtn = vsub (mat_vec m (vsub (vel xt) (vel x))) (cross (omega_chief x) dr_rtn)
          in Inr (State6 dr_rtn dv_rtn))"


section \<open>Orbital elements to Cartesian state (brahe.orbits)\<close>

text \<open>
  Modelled from the spec: \<open>brahe/orbits.py\<close> and \<open>brahe/constants.py\<close> are not among
  the sources. Section 4.4 of the specification asks for a Newton-Raphson solution of
  Kepler's equation \<open>M = E - e sin E\<close> to a fixed tolerance within a bounded number of
  iterations (a \<open>ConvergenceError\<close> beyond it). The tolerance and the iteration budget
  are parameters, since the specification fixes neither; the iteration starts at
  \<open>E = M\<close>.
\<close>

fun newton_kepler :: "real \<Rightarrow> nat \<Rightarrow> real \<Rightarrow> real \<Rightarrow> real \<Rightarrow> error + real" where
  "newton_kepler tol 0 M e E =
     (if \<bar>E - e * sin E - M\<bar> \<le> tol then Inr E else Inl ConvergenceError)"
| "newton_kepler tol (Suc n) M e E =
     (if \<bar>E - e * sin E - M\<bar> \<le> tol then Inr E
      else newton_kepler tol n M e (E - (E - e * sin E - M) / (1 - e * cos E)))"

definition anomaly_mean_to_eccentric :: "real \<Rightarrow> nat \<Rightarrow> real \<Rightarrow> real \<Rightarrow> error + real" where
  "anomaly_mean_to_eccentric tol max_iter M e = newton_kepler tol max_iter M e M"

record elements =
  oe_a :: real
  oe_e :: real
  oe_i :: real
  oe_RAAN :: real
  oe_omega :: real
  oe_M :: real

text \<open>
  Modelled from the spec: \<open>sOSCtoCART\<close> of \<open>brahe/orbits.py\<close> (not among the sources).
  A semi-major axis \<open>a \<le> 0\<close> or an eccentricity \<open>e \<ge> 1\<close> is a \<open>DomainError\<close>; the
  position and velocity in the perifocal plane are the two-body ones,
  \<open>(a (cos E - e), a \<surd>(1 - e\<^sup>2) sin E, 0)\<close> and
  \<open>\<surd>(GM a) / (a (1 - e cos E)) \<cdot> (- sin E, \<surd>(1 - e\<^sup>2) cos E, 0)\<close>, rotated into the
  inertial frame by \<open>Rz(-\<Omega>) \<cdot> Rx(-i) \<cdot> Rz(-\<omega>)\<close>. The gravitational parameter
  \<open>GM\<close> is a parameter.
\<close>

definition sOSCtoCART :: "real \<Rightarrow> real \<Rightarrow> nat \<Rightarrow> elements \<Rightarrow> bool \<Rightarrow> error + state6" where
  "sOSCtoCART GM tol max_iter oe use_degrees =
     (let a = oe_a oe; e = oe_e oe;
          i = to_radians (oe_i oe) use_degrees;
          RAAN = to_radians (oe_RAAN oe) use_degrees;
          omega = to_radians (oe_omega oe) use_degrees;
          M = to_radians (oe_M oe) use_degrees
      in if a \<le> 0 \<or> e \<ge> 1 then Inl DomainError
         else
           (case anomaly_mean_to_eccentric tol max_iter M e of
              Inl err \<Rightarrow> Inl err
            | Inr E \<Rightarrow>
                let rot = mat_mul (Rz (- RAAN) False)
                            (mat_mul (Rx (- i) False) (Rz (- omega) False));
                    p = Vec3 (a * (cos E - e)) (a * sqrt (1 - e * e) * sin E) 0;
                    q = vscale (sqrt (GM * a) / (a * (1 - e * cos E)))
                          (Vec3 (- sin E) (sqrt (1 - e * e) * cos E) 0)
                in Inr (State6 (mat_vec rot p) (mat_vec rot q))))"

section \<open>Time windows (brahe.data_models.earth_observation)\<close>

text \<open>
  A naive \<open>datetime.datetime\<close> is a position on the time line, counted in microseconds
  (its resolution); a \<open>datetime.timedelta\<close> is a number of microseconds. The limits of
  Python's datetime (years 1 to 9999) and time zones are not modelled. Floats are real
  numbers.
\<close>

type_synonym datetime = int

type_synonym timedelta = int

definition py_round :: "real \<Rightarrow> int" where
  \<comment> \<open>Python's \<open>round\<close>: to the nearest integer, a tie to the even one\<close>
  "py_round x =
     (let f = \<lfloor>x\<rfloor>; r = x - of_int f
      in if r < 1 / 2 then f else if 1 / 2 < r then f + 1 else if even f then f else f + 1)"

definition timedelta_seconds :: "real \<Rightarrow> timedelta" where
  \<comment> \<open>\<open>datetime.timedelta(seconds=d)\<close>\<close>
  "timedelta_seconds d = py_round (d * 1000000)"

definition total_seconds :: "timedelta \<Rightarrow> real" where
  "total_seconds td = of_int td / 1000000"

definition timedelta_div :: "timedelta \<Rightarrow> real \<Rightarrow> timedelta" where
  \<comment> \<open>\<open>td / x\<close> for a float \<open>x\<close>\<close>
  "timedelta_div td x = py_round (of_int td / x)"

text \<open>
  Modelled from the spec: \<open>brahe/epoch.py\<close> is not among the sources. An \<open>Epoch\<close>
  argument is given by the datetime its \<open>to_datetime(tsys='UTC')\<close> returns, a string
  argument carries what \<open>Epoch(s, tsys='UTC').to_datetime(tsys='UTC')\<close> returns or raises.
  An \<open>Epoch\<close> object is truthy (the class is taken to define neither \<open>__bool__\<close> nor
  \<open>__len__\<close>), as every datetime is; a string is truthy when it is not empty, a number
  when it is not zero, \<open>None\<close> never.
\<close>

datatype time_arg =
    DatetimeArg datetime
  | EpochArg datetime
  | StrArg string "error + datetime"

fun truthy_time :: "time_arg option \<Rightarrow> bool" where
  "truthy_time None = False"
| "truthy_time (Some (DatetimeArg d)) = True"
| "truthy_time (Some (EpochArg d)) = True"
| "truthy_time (Some (StrArg s r)) = (s \<noteq> [])"

fun truthy_float :: "real option \<Rightarrow> bool" where
  "truthy_float None = False"
| "truthy_float (Some d) = (d \<noteq> 0)"

fun to_datetime :: "time_arg \<Rightarrow> error + datetime" where
  \<comment> \<open>the chain \<open>if type(t) == Epoch: ... elif type(t) == str: ...\<close>\<close>
  "to_datetime (EpochArg d) = Inr d"
| "to_datetime (StrArg s r) = r"
| "to_datetime (DatetimeArg d) = Inr d"

record time_window =
  t_start :: datetime
  t_mid :: datetime
  t_end :: datetime
  t_duration :: real

definition populate :: "datetime \<Rightarrow> datetime \<Rightarrow> real \<Rightarrow> time_window" where
  \<comment> \<open>the end of \<open>set_times\<close>: the mid-time, then the four values\<close>
  "populate start end' duration =
     (let mid = start + timedelta_div (timedelta_seconds duration) 2
      in \<lparr>t_start = start, t_mid = mid, t_end = end', t_duration = duration\<rparr>)"

definition set_times :: "time_arg option \<Rightarrow> time_arg option \<Rightarrow> real option \<Rightarrow> error + time_window" where
  "set_times start end' duration =
     (if truthy_time start \<and> truthy_time end' then
        (case to_datetime (the start) of
           Inl err \<Rightarrow> Inl err
         | Inr s \<Rightarrow>
             (case to_datetime (the end') of
                Inl err \<Rightarrow> Inl err
              | Inr e \<Rightarrow>
                  let d = total_seconds (e - s)
                  in if e \<le> s then Inl ValueError else Inr (populate s e d)))
      else if truthy_time start \<and> truthy_float duration then
        (case to_datetime (the start) of
           Inl err \<Rightarrow> Inl err
         | Inr s \<Rightarrow>
             let e = s + timedelta_seconds (the duration)
             in Inr (populate s e (the duration)))
      else if truthy_time end' \<and> truthy_float duration then
        (case to_datetime (the end') of
           Inl err \<Rightarrow> Inl err
         | Inr e \<Rightarrow>
             let s = e - timedelta_seconds (the duration)
             in Inr (populate s e (the duration)))
      else Inl ValueError)"

definition TimeWindowProperties ::
  "time_arg option \<Rightarrow> time_arg option \<Rightarrow> real option \<Rightarrow> error + time_window" where
  \<comment> \<open>construction: the root validator runs first; the field validators then take the
      naive datetimes and the float as they are\<close>
  "TimeWindowProperties start end' duration = set_times start end' duration"


definition truthy_count :: "time_arg option \<Rightarrow> time_arg option \<Rightarrow> real option \<Rightarrow> nat" where
  "truthy_count start end' duration =
     (if truthy_time start then 1 else 0) + (if truthy_time end' then 1 else 0)
     + (if truthy_float duration then 1 else 0)"

section \<open>Access constraints\<close>

datatype AscendingDescending = ascending | descending | either

datatype LookDirection = left | right | either_direction

record access_constraints =
  ascdsc :: AscendingDescending
  look_direction :: LookDirection
  look_angle_min :: real
  look_angle_max :: real
  elevation_min :: real
  elevation_max :: real

definition confloat :: "real \<Rightarrow> real \<Rightarrow> real \<Rightarrow> error + real" where
  \<comment> \<open>\<open>pydantic.confloat(ge=lo, le=hi)\<close>\<close>
  "confloat lo hi v = (if lo \<le> v \<and> v \<le> hi then Inr v else Inl ValueError)"

definition validate_look_angle :: "real \<Rightarrow> (string \<rightharpoonup> real) \<Rightarrow> error + real" where
  "validate_look_angle la_max values =
     (let la_min = values ''look_angle_min''
      in if \<not> truthy_float la_min \<or> the la_min > la_max then Inl ValueError
         else Inr la_max)"

definition validate_elevation :: "real \<Rightarrow> (string \<rightharpoonup> real) \<Rightarrow> error + real" where
  "validate_elevation el_max values =
     (let el_min = values ''elevation_min''
      in if \<not> truthy_float el_min \<or> the el_min > el_max then Inl ValueError
         else Inr el_max)"

text \<open>
  Pydantic validates the fields in the order of their declaration. A field that is not
  supplied takes its default, which is not validated (no validator here has
  \<open>always=True\<close>); a supplied one goes through its type's validator and then through the
  class's validator, which reads the fields already validated from \<open>values\<close>. A field
  that fails is left out of \<open>values\<close> and its error is recorded (the second component);
  at the end any recorded error is raised as a \<open>ValidationError\<close>, a \<open>ValueError\<close>.
\<close>

definition validate_field ::
  "string \<Rightarrow> real \<Rightarrow> (real \<Rightarrow> (string \<rightharpoonup> real) \<Rightarrow> error + real) \<Rightarrow> real option
     \<Rightarrow> (string \<rightharpoonup> real) \<times> bool \<Rightarrow> (string \<rightharpoonup> real) \<times> bool" where
  "validate_field name dflt check input st =
     (case input of
        None \<Rightarrow> ((fst st)(name \<mapsto> dflt), snd st)
      | Some v \<Rightarrow>
          (case check v (fst st) of
             Inl err \<Rightarrow> (fst st, True)
           | Inr v' \<Rightarrow> ((fst st)(name \<mapsto> v'), snd st)))"

definition look_angle_max_validators :: "real \<Rightarrow> (string \<rightharpoonup> real) \<Rightarrow> error + real" where
  "look_angle_max_validators v values =
     (case confloat 0 90 v of Inl err \<Rightarrow> Inl err | Inr v' \<Rightarrow> validate_look_angle v' values)"

definition elevation_max_validators :: "real \<Rightarrow> (string \<rightharpoonup> real) \<Rightarrow> error + real" where
  "elevation_max_validators v values =
     (case confloat 0 90 v of Inl err \<Rightarrow> Inl err | Inr v' \<Rightarrow> validate_elevation v' values)"

definition confloat_validator :: "real \<Rightarrow> (string \<rightharpoonup> real) \<Rightarrow> error + real" where
  "confloat_validator v values = confloat 0 90 v"

definition AccessConstraints ::
  "AscendingDescending option \<Rightarrow> LookDirection option \<Rightarrow> real option \<Rightarrow> real option
     \<Rightarrow> real option \<Rightarrow> real option \<Rightarrow> error + access_constraints" where
  "AccessConstraints ad ld la_min la_max el_min el_max =
     (let st0 = (Map.empty, False);
          st1 = validate_field ''look_angle_min'' 0 confloat_validator la_min st0;
          st2 = validate_field ''look_angle_max'' 90 look_angle_max_validators la_max st1;
          st3 = validate_field ''elevation_min'' 0 confloat_validator el_min st2;
          st4 = validate_field ''elevation_max'' 90 elevation_max_validators el_max st3;
          values = fst st4
      in if snd st4 then Inl ValueError
         else
           (case (values ''look_angle_min'', values ''look_angle_max'',
                  values ''elevation_min'', values ''elevation_max'') of
              (Some a, Some b, Some c, Some d) \<Rightarrow>
                Inr \<lparr>ascdsc = (case ad of None \<Rightarrow> either | Some x \<Rightarrow> x),
                     look_direction = (case ld of None \<Rightarrow> either_direction | Some x \<Rightarrow> x),
                     look_angle_min = a, look_angle_max = b,
                     elevation_min = c, elevation_max = d\<rparr>
            | _ \<Rightarrow> Inl ValueError))"

section \<open>Geodetic to Earth-fixed (brahe.coordinates)\<close>

text \<open>
  Modelled from the spec: \<open>brahe/coordinates.py\<close> and \<open>brahe/constants.py\<close> are not among
  the sources. Section 4.3 of the specification gives, for a point (lat, lon, alt) on the
  ellipsoid with semi-major axis \<open>a\<close> and flattening \<open>f\<close>, the radius
  \<open>N = a / \<surd>(1 - e\<^sup>2 sin\<^sup>2 lat)\<close> with \<open>e\<^sup>2 = f (2 - f)\<close> and the Earth-fixed point
  \<open>((N + alt) cos lat cos lon, (N + alt) cos lat sin lon, (N (1 - e\<^sup>2) + alt) sin lat)\<close>;
  the altitude is 0 for a point of two elements. The two constants are parameters.
\<close>

definition geodetic_point :: "real \<Rightarrow> real \<Rightarrow> real \<Rightarrow> real \<Rightarrow> real \<Rightarrow> real list" where
  "geodetic_point wgs_a wgs_f lat lon alt =
     (let e2 = wgs_f * (2 - wgs_f);
          N = wgs_a / sqrt (1 - e2 * sin lat * sin lat)
      in [(N + alt) * cos lat * cos lon, (N + alt) * cos lat * sin lon,
          (N * (1 - e2) + alt) * sin lat])"

fun sGEODtoECEF :: "real \<Rightarrow> real \<Rightarrow> real list \<Rightarrow> bool \<Rightarrow> error + real list" where
  "sGEODtoECEF wgs_a wgs_f [lat, lon] use_degrees =
     Inr (geodetic_point wgs_a wgs_f (to_radians lat use_degrees)
            (to_radians lon use_degrees) 0)"
| "sGEODtoECEF wgs_a wgs_f [lat, lon, alt] use_degrees =
     Inr (geodetic_point wgs_a wgs_f (to_radians lat use_degrees)
            (to_radians lon use_degrees) alt)"
| "sGEODtoECEF wgs_a wgs_f geod use_degrees = Inl IndexError"

section \<open>Collects and contacts\<close>

fun truthy_list :: "real list option \<Rightarrow> bool" where
  "truthy_list None = False"
| "truthy_list (Some xs) = (xs \<noteq> [])"

definition Collect_set_center_ecef ::
  "real \<Rightarrow> real \<Rightarrow> real list option \<Rightarrow> (string \<rightharpoonup> real list) \<Rightarrow> error + real list" where
  "Collect_set_center_ecef wgs_a wgs_f center_ecef values =
     (if \<not> truthy_list center_ecef then
        (case values ''center'' of
           None \<Rightarrow> Inl KeyError
         | Some center \<Rightarrow>
             let center' = (if length center = 2 then [center ! 0, center ! 1, 0] else center)
             in sGEODtoECEF wgs_a wgs_f center' True)
      else Inr (the center_ecef))"

definition Contact_set_center_ecef ::
  "real \<Rightarrow> real \<Rightarrow> real list option \<Rightarrow> (string \<rightharpoonup> real list) \<Rightarrow> error + real list" where
  "Contact_set_center_ecef wgs_a wgs_f center_ecef values =
     (if \<not> truthy_list center_ecef then
        (case values ''center'' of
           None \<Rightarrow> Inl KeyError
         | Some center \<Rightarrow>
             let center' = (if length center = 2 then [center ! 0, center ! 1, 0] else center)
             in sGEODtoECEF wgs_a wgs_f center' True)
      else Inr (the center_ecef))"

definition conlist :: "nat \<Rightarrow> nat \<Rightarrow> real list \<Rightarrow> error + real list" where
  \<comment> \<open>\<open>pydantic.conlist(float, min_items=lo, max_items=hi)\<close>\<close>
  "conlist lo hi v = (if lo \<le> length v \<and> length v \<le> hi then Inr v else Inl ValueError)"

record center_fields =
  center :: "real list"
  center_ecef :: "real list"

text \<open>
  The two fields \<open>center\<close> and \<open>center_ecef\<close> of a collect or a contact, in the order of
  their declaration. \<open>center\<close> is required and is a list of two or three floats; the
  validator of \<open>center_ecef\<close> runs before the type's own (\<open>pre=True\<close>) and also when
  nothing is supplied (\<open>always=True\<close>), and reads \<open>center\<close> from \<open>values\<close>, where it is
  only if it was valid. A \<open>ValueError\<close> or \<open>TypeError\<close> of a validator becomes a
  \<open>ValidationError\<close>, any other exception leaves the construction as it is. The other
  fields of the two classes do not enter the validator.
\<close>

definition center_validation ::
  "(real list option \<Rightarrow> (string \<rightharpoonup> real list) \<Rightarrow> error + real list)
     \<Rightarrow> real list option \<Rightarrow> real list option \<Rightarrow> error + center_fields" where
  "center_validation set_center_ecef center_in center_ecef_in =
     (let values =
            (case center_in of
               None \<Rightarrow> Map.empty
             | Some c \<Rightarrow>
                 (case conlist 2 3 c of
                    Inl err \<Rightarrow> Map.empty
                  | Inr c' \<Rightarrow> [''center'' \<mapsto> c']))
      in case set_center_ecef center_ecef_in values of
           Inl err \<Rightarrow> Inl (if err = ValueError \<or> err = TypeError then ValueError else err)
         | Inr v \<Rightarrow>
             (case conlist 3 3 v of
                Inl err \<Rightarrow> Inl ValueError
              | Inr v' \<Rightarrow>
                  (case values ''center'' of
                     None \<Rightarrow> Inl ValueError
                   | Some c \<Rightarrow> Inr \<lparr>center = c, center_ecef = v'\<rparr>)))"

definition Collect_center ::
  "real \<Rightarrow> real \<Rightarrow> real list option \<Rightarrow> real list option \<Rightarrow> error + center_fields" where
  "Collect_center wgs_a wgs_f = center_validation (Collect_set_center_ecef wgs_a wgs_f)"

definition Contact_center ::
  "real \<Rightarrow> real \<Rightarrow> real list option \<Rightarrow> real list option \<Rightarrow> error + center_fields" where
  "Contact_center wgs_a wgs_f = center_validation (Contact_set_center_ecef wgs_a wgs_f)"

section \<open>JSON encoders of the models\<close>

text \<open>
  For formatting, a datetime is its calendar fields. \<open>strftime\<close> is Python's, for the one
  format the encoder uses, \<open>'%Y-%m-%dT%H:%M:%S.%f'\<close>: the year in (at least) four
  digits, the other fields in two, the microseconds in six, each padded with zeros.
\<close>

record datetime_fields =
  year :: nat
  month :: nat
  day :: nat
  hour :: nat
  minute :: nat
  second :: nat
  microsecond :: nat

definition digit_char :: "nat \<Rightarrow> char" where
  "digit_char d = ''0123456789'' ! d"

fun str_nat :: "nat \<Rightarrow> string" where
  "str_nat n = (if n < 10 then [digit_char n] else str_nat (n div 10) @ [digit_char (n mod 10)])"

declare str_nat.simps [simp del]

definition zfill :: "nat \<Rightarrow> string \<Rightarrow> string" where
  "zfill w s = replicate (w - length s) (CHR ''0'') @ s"

definition strftime_date_time :: "datetime_fields \<Rightarrow> string" where
  "strftime_date_time v =
     zfill 4 (str_nat (year v)) @ ''-'' @ zfill 2 (str_nat (month v)) @ ''-''
     @ zfill 2 (str_nat (day v)) @ ''T'' @ zfill 2 (str_nat (hour v)) @ '':''
     @ zfill 2 (str_nat (minute v)) @ '':'' @ zfill 2 (str_nat (second v)) @ ''.''"

definition strftime :: "datetime_fields \<Rightarrow> string" where
  "strftime v = strftime_date_time v @ zfill 6 (str_nat (microsecond v))"

definition drop_last :: "nat \<Rightarrow> string \<Rightarrow> string" where
  \<comment> \<open>the slice \<open>s[:-n]\<close>, for \<open>n > 0\<close>\<close>
  "drop_last n s = take (length s - n) s"

text \<open>
  A numpy array is a scalar (an array of no dimension) or a sequence of arrays; \<open>tolist\<close>
  is numpy's conversion to nested lists. The table \<open>json_encoders\<close> of \<open>EOBase.Config\<close>,
  which every derived model inherits, has an entry for each of the two types.
\<close>

datatype ndarray = Scalar real | Array "ndarray list"

datatype json = JNumber real | JString string | JArray "json list"

fun tolist :: "ndarray \<Rightarrow> json" where
  "tolist (Scalar x) = JNumber x"
| "tolist (Array xs) = JArray (map tolist xs)"

datatype field_value = DatetimeValue datetime_fields | NdarrayValue ndarray

fun json_encoders :: "field_value \<Rightarrow> json" where
  "json_encoders (DatetimeValue v) = JString (drop_last 3 (strftime v) @ ''Z'')"
| "json_encoders (NdarrayValue v) = tolist v"

text \<open>The last \<open>w\<close> decimal digits of a number, used to reason about the padding.\<close>

fun fixed_width :: "nat \<Rightarrow> nat \<Rightarrow> string" where
  "fixed_width 0 n = []"
| "fixed_width (Suc w) n = fixed_width w (n div 10) @ [digit_char (n mod 10)]"

section \<open>Properties of the elementary rotations\<close>

text \<open>
  C3: with the angle 45 degrees, \<open>Rx\<close> has first row and first column (1, 0, 0) and the
  entries \<open>cos\<close>, \<open>+sin\<close>, \<open>-sin\<close>, \<open>cos\<close> at [1,1], [1,2], [2,1], [2,2]; \<open>Ry\<close> has
  \<open>-sin\<close> at [0,2] and \<open>+sin\<close> at [2,0]; \<open>Rz\<close> has \<open>+sin\<close> at [0,1] and \<open>-sin\<close> at
  [1,0]; each within 1e-8 of the value for 45 degrees in radians, whose sine is positive.
\<close>

theorem rotations_45_sign_convention:
  fixes rad :: real
  defines "rad \<equiv> 45 * pi / 180"
  shows "0 < sin rad
    \<and> row (Rx 45 True) 0 = Vec3 1 0 0
    \<and> entry (Rx 45 True) 1 0 = 0 \<and> entry (Rx 45 True) 2 0 = 0
    \<and> \<bar>entry (Rx 45 True) 1 1 - cos rad\<bar> \<le> 1 / 10 ^ 8
    \<and> \<bar>entry (Rx 45 True) 1 2 - sin rad\<bar> \<le> 1 / 10 ^ 8
    \<and> \<bar>entry (Rx 45 True) 2 1 - (- sin rad)\<bar> \<le> 1 / 10 ^ 8
    \<and> \<bar>entry (Rx 45 True) 2 2 - cos rad\<bar> \<le> 1 / 10 ^ 8
    \<and> \<bar>entry (Ry 45 True) 0 2 - (- sin rad)\<bar> \<le> 1 / 10 ^ 8
    \<and> \<bar>entry (Ry 45 True) 2 0 - sin rad\<bar> \<le> 1 / 10 ^ 8
    \<and> \<bar>entry (Rz 45 True) 0 1 - sin rad\<bar> \<le> 1 / 10 ^ 8
    \<and> \<bar>entry (Rz 45 True) 1 0 - (- sin rad)\<bar> \<le> 1 / 10 ^ 8"
proof -
  have r: "rad = pi / 4" by (simp add: rad_def)
  have "0 < sin rad" unfolding r by (simp add: sin_45)
  then show ?thesis
    by (simp add: Rx_def Ry_def Rz_def to_radians_def entry_def rad_def Let_def)
qed

section \<open>Vector algebra\<close>

lemma triad_complete:
  "vadd (vadd (vscale (dot r y * dot (cross r v) (cross r v)) r)
              (vscale (dot (cross (cross r v) r) y) (cross (cross r v) r)))
        (vscale (dot (cross r v) y * dot r r) (cross r v))
   = vscale (dot r r * dot (cross r v) (cross r v)) y"
  apply (cases r; cases v; cases y)
  apply simp
  apply (intro conjI)
  apply (simp_all add: algebra_simps)
  done

lemma norm3_sq: "norm3 v * norm3 v = dot v v"
  by (cases v) (simp add: norm3_def)

lemma norm3_power2: "(norm3 v)\<^sup>2 = dot v v"
  by (simp add: power2_eq_square norm3_sq)

lemma vscale_vscale: "vscale a (vscale b v) = vscale (a * b) v"
  by (cases v) simp

lemma vscale_one: "vscale 1 v = v"
  by (cases v) simp

lemma vscale_vadd: "vscale k (vadd u v) = vadd (vscale k u) (vscale k v)"
  by (cases u; cases v) (simp add: algebra_simps)

lemma dot_vscale_left: "dot (vscale a u) v = a * dot u v"
  by (cases u; cases v) (simp add: algebra_simps)

lemma dot_vscale_right: "dot u (vscale a v) = a * dot u v"
  by (cases u; cases v) (simp add: algebra_simps)

lemma dot_vadd_right: "dot u (vadd v w) = dot u v + dot u w"
  by (cases u; cases v; cases w) (simp add: algebra_simps)

lemma cross_vscale: "cross (vscale a u) (vscale b v) = vscale (a * b) (cross u v)"
  by (cases u; cases v) (simp add: algebra_simps)

lemma dot_cross_left: "dot r (cross r v) = 0"
  by (cases r; cases v) (simp add: algebra_simps)

lemma dot_cross_perp1: "dot (cross u r) r = 0"
  by (cases r; cases u) (simp add: algebra_simps)

lemma dot_cross_perp2: "dot (cross u r) u = 0"
  by (cases r; cases u) (simp add: algebra_simps)

lemma dot_commute: "dot u v = dot v u"
  by (cases u; cases v) (simp add: algebra_simps)

lemma lagrange: "dot (cross u r) (cross u r) = dot u u * dot r r - dot u r * dot u r"
  by (cases r; cases u) (simp add: algebra_simps)

lemma mat_vec_transpose3:
  "mat_vec (transpose3 (Mat3 a b c)) y =
     vadd (vadd (vscale (comp y 0) a) (vscale (comp y 1) b)) (vscale (comp y 2) c)"
  by (cases a; cases b; cases c; cases y) (simp add: algebra_simps)

lemma transpose3_transpose3: "transpose3 (transpose3 m) = m"
proof (cases m)
  case (Mat3 a b c)
  then show ?thesis by (cases a; cases b; cases c) simp
qed

lemma mat_vec_mat_mul: "mat_vec (mat_mul a b) y = mat_vec a (mat_vec b y)"
proof (cases a)
  case A: (Mat3 a0 a1 a2)
  show ?thesis
  proof (cases b)
    case B: (Mat3 b0 b1 b2)
    show ?thesis unfolding A B
      by (cases a0; cases a1; cases a2; cases b0; cases b1; cases b2; cases y)
         (simp add: algebra_simps)
  qed
qed

lemma mat3_eq_identity:
  assumes "\<And>y. mat_vec m y = y"
  shows "m = identity3"
proof (cases m)
  case M: (Mat3 a b c)
  have e0: "mat_vec m (Vec3 1 0 0) = Vec3 1 0 0"
   and e1: "mat_vec m (Vec3 0 1 0) = Vec3 0 1 0"
   and e2: "mat_vec m (Vec3 0 0 1) = Vec3 0 0 1"
    using assms by blast+
  show ?thesis using e0 e1 e2 unfolding M identity3_def
    by (cases a; cases b; cases c) simp
qed


lemma frame_complete:
  assumes nr: "norm3 r \<noteq> 0" and nh: "norm3 (cross r v) \<noteq> 0"
  defines "R \<equiv> vscale (1 / norm3 r) r"
    and "N \<equiv> vscale (1 / norm3 (cross r v)) (cross r v)"
  shows "vadd (vadd (vscale (dot R y) R) (vscale (dot (cross N R) y) (cross N R)))
              (vscale (dot N y) N) = y"
proof -
  let ?h = "cross r v"
  let ?t = "cross ?h r"
  let ?a = "dot r r"
  let ?b = "dot ?h ?h"
  have a: "?a \<noteq> 0" using nr norm3_sq[of r] by auto
  have b: "?b \<noteq> 0" using nh norm3_sq[of ?h] by auto
  have T: "cross N R = vscale (1 / (norm3 ?h * norm3 r)) ?t"
    by (simp add: N_def R_def cross_vscale)
  have sq: "1 / (norm3 ?h * norm3 r) * (1 / (norm3 ?h * norm3 r)) = 1 / (?a * ?b)"
    using norm3_sq[of r] norm3_sq[of ?h] by (simp add: field_simps)
  have sqr: "1 / norm3 r * (1 / norm3 r) = 1 / ?a"
    using norm3_sq[of r] by (simp add: field_simps)
  have sqh: "1 / norm3 ?h * (1 / norm3 ?h) = 1 / ?b"
    using norm3_sq[of ?h] by (simp add: field_simps)
  have 1: "vscale (dot R y) R = vscale (1 / (?a * ?b)) (vscale (dot r y * ?b) r)"
  proof -
    have "vscale (dot R y) R = vscale (1 / norm3 r * (1 / norm3 r) * dot r y) r"
      by (simp add: R_def dot_vscale_left vscale_vscale mult_ac)
    also have "\<dots> = vscale (1 / ?a * dot r y) r" by (simp only: sqr)
    also have "\<dots> = vscale (1 / (?a * ?b) * (dot r y * ?b)) r" using a b by simp
    finally show ?thesis by (simp only: vscale_vscale)
  qed
  have 2: "vscale (dot (cross N R) y) (cross N R) = vscale (1 / (?a * ?b)) (vscale (dot ?t y) ?t)"
  proof -
    have "vscale (dot (cross N R) y) (cross N R)
        = vscale (1 / (norm3 ?h * norm3 r) * (1 / (norm3 ?h * norm3 r)) * dot ?t y) ?t"
      unfolding T by (simp add: dot_vscale_left vscale_vscale mult_ac)
    also have "\<dots> = vscale (1 / (?a * ?b) * dot ?t y) ?t" by (simp only: sq)
    finally show ?thesis by (simp only: vscale_vscale)
  qed
  have 3: "vscale (dot N y) N = vscale (1 / (?a * ?b)) (vscale (dot ?h y * ?a) ?h)"
  proof -
    have "vscale (dot N y) N = vscale (1 / norm3 ?h * (1 / norm3 ?h) * dot ?h y) ?h"
      by (simp add: N_def dot_vscale_left vscale_vscale mult_ac)
    also have "\<dots> = vscale (1 / ?b * dot ?h y) ?h" by (simp only: sqh)
    also have "\<dots> = vscale (1 / (?a * ?b) * (dot ?h y * ?a)) ?h" using a b by simp
    finally show ?thesis by (simp only: vscale_vscale)
  qed
  have "vadd (vadd (vscale (dot R y) R) (vscale (dot (cross N R) y) (cross N R)))
              (vscale (dot N y) N)
      = vscale (1 / (?a * ?b)) (vscale (?a * ?b) y)"
    unfolding 1 2 3 by (simp only: vscale_vadd[symmetric] triad_complete)
  also have "\<dots> = y" using a b by (simp add: vscale_vscale vscale_one)
  finally show ?thesis .
qed

lemma frame_orthonormal:
  assumes nr: "norm3 r \<noteq> 0" and nh: "norm3 (cross r v) \<noteq> 0"
  defines "R \<equiv> vscale (1 / norm3 r) r"
    and "N \<equiv> vscale (1 / norm3 (cross r v)) (cross r v)"
  shows "dot R R = 1" "dot N N = 1" "dot (cross N R) (cross N R) = 1"
        "dot R N = 0" "dot R (cross N R) = 0" "dot N (cross N R) = 0"
proof -
  let ?h = "cross r v"
  have rr: "dot R R = 1"
  proof -
    have "dot R R = 1 / norm3 r * (1 / norm3 r * (norm3 r * norm3 r))"
      by (simp only: R_def dot_vscale_left dot_vscale_right norm3_sq)
    then show ?thesis using nr by simp
  qed
  have nn: "dot N N = 1"
  proof -
    have "dot N N = 1 / norm3 ?h * (1 / norm3 ?h * (norm3 ?h * norm3 ?h))"
      by (simp only: N_def dot_vscale_left dot_vscale_right norm3_sq)
    then show ?thesis using nh by simp
  qed
  have rn: "dot R N = 0"
    by (simp add: R_def N_def dot_vscale_left dot_vscale_right dot_cross_left)
  have nr': "dot N R = 0" using rn by (simp add: dot_commute)
  show "dot R R = 1" by (rule rr)
  show "dot N N = 1" by (rule nn)
  show "dot R N = 0" by (rule rn)
  show "dot (cross N R) (cross N R) = 1" by (simp add: lagrange rr nn nr')
  show "dot R (cross N R) = 0" using dot_cross_perp1[of N R] by (simp add: dot_commute)
  show "dot N (cross N R) = 0" using dot_cross_perp2[of N R] by (simp add: dot_commute)
qed



lemma rRTNtoECI_Inr:
  assumes "\<not> degenerate x"
  shows "rRTNtoECI x =
    Inr (transpose3 (Mat3 (vscale (1 / norm3 (pos x)) (pos x))
      (cross (vscale (1 / norm3 (cross (pos x) (vel x))) (cross (pos x) (vel x)))
             (vscale (1 / norm3 (pos x)) (pos x)))
      (vscale (1 / norm3 (cross (pos x) (vel x))) (cross (pos x) (vel x)))))"
  using assms by (simp add: rRTNtoECI_def Let_def)

lemma rtn_to_eci_after_eci_to_rtn:
  assumes nd: "\<not> degenerate x" and m: "rRTNtoECI x = Inr m"
  shows "mat_vec m (mat_vec (transpose3 m) y) = y"
proof -
  have nr: "norm3 (pos x) \<noteq> 0" and nh: "norm3 (cross (pos x) (vel x)) \<noteq> 0"
    using nd by (simp_all add: degenerate_def)
  show ?thesis
    using m frame_complete[OF nr nh, of y]
    unfolding rRTNtoECI_Inr[OF nd]
    by (auto simp add: transpose3_transpose3 mat_vec_transpose3)
qed

lemma eci_to_rtn_after_rtn_to_eci:
  assumes nd: "\<not> degenerate x" and m: "rRTNtoECI x = Inr m"
  shows "mat_vec (transpose3 m) (mat_vec m y) = y"
proof -
  have nr: "norm3 (pos x) \<noteq> 0" and nh: "norm3 (cross (pos x) (vel x)) \<noteq> 0"
    using nd by (simp_all add: degenerate_def)
  define R where "R = vscale (1 / norm3 (pos x)) (pos x)"
  define N where "N = vscale (1 / norm3 (cross (pos x) (vel x))) (cross (pos x) (vel x))"
  note on = frame_orthonormal[OF nr nh, folded R_def N_def]
  have sym: "dot N R = 0" "dot (cross N R) R = 0" "dot (cross N R) N = 0"
    using on(4,5,6) by (simp_all add: dot_commute)
  have M: "m = transpose3 (Mat3 R (cross N R) N)"
    using m unfolding rRTNtoECI_Inr[OF nd] R_def N_def by simp
  show ?thesis
    unfolding M
    by (cases y)
       (simp add: transpose3_transpose3 mat_vec_transpose3 dot_vadd_right
          dot_vscale_right on sym)
qed

lemma rtn_orthonormal:
  assumes nd: "\<not> degenerate x" and m: "rRTNtoECI x = Inr m"
  shows "orthonormal m"
  unfolding orthonormal_def
  by (intro conjI mat3_eq_identity)
     (simp_all add: mat_vec_mat_mul rtn_to_eci_after_eci_to_rtn[OF nd m]
        eci_to_rtn_after_rtn_to_eci[OF nd m])


section \<open>Properties of the RTN transforms\<close>



text \<open>
  C2: for every non-degenerate chief state, the inertial-to-RTN rotation is the transpose
  of the RTN-to-inertial rotation of the same state, and both are orthonormal (the
  product with the transpose is the identity on either side).
\<close>

theorem rtn_rotations_transpose_orthonormal:
  assumes "\<not> degenerate x"
  shows "\<exists>m. rRTNtoECI x = Inr m \<and> rECItoRTN x = Inr (transpose3 m)
           \<and> orthonormal m \<and> orthonormal (transpose3 m)"
proof -
  obtain m where m: "rRTNtoECI x = Inr m"
    using rRTNtoECI_Inr[OF assms] by blast
  have o: "orthonormal m" by (rule rtn_orthonormal[OF assms m])
  then have "orthonormal (transpose3 m)"
    by (simp add: orthonormal_def transpose3_transpose3)
  with m o show ?thesis by (simp add: rECItoRTN_def)
qed

theorem rtn_rotations_transpose_orthonormal_witness:
  "\<not> degenerate (State6 (Vec3 3 0 4) (Vec3 0 1 0))
   \<and> (\<exists>m. rRTNtoECI (State6 (Vec3 3 0 4) (Vec3 0 1 0)) = Inr m
        \<and> rECItoRTN (State6 (Vec3 3 0 4) (Vec3 0 1 0)) = Inr (transpose3 m)
        \<and> orthonormal m \<and> orthonormal (transpose3 m))"
proof -
  have s25: "sqrt 25 = 5" using real_sqrt_abs[of 5] by simp
  have nd: "\<not> degenerate (State6 (Vec3 3 0 4) (Vec3 0 1 0))"
    by (simp add: degenerate_def norm3_def s25)
  from rtn_rotations_transpose_orthonormal[OF nd] nd show ?thesis by blast
qed

section \<open>The circular-orbit scenario\<close>

lemma kepler_zero: "0 \<le> tol \<Longrightarrow> anomaly_mean_to_eccentric tol n 0 0 = Inr 0"
  by (cases n) (simp_all add: anomaly_mean_to_eccentric_def)

lemma circular_chief:
  assumes tol: "0 \<le> tol" and a: "0 < a"
  shows "sOSCtoCART GM tol n \<lparr>oe_a = a, oe_e = 0, oe_i = 0, oe_RAAN = 0, oe_omega = 0, oe_M = 0\<rparr> True
         = Inr (State6 (Vec3 a 0 0) (Vec3 0 (sqrt (GM * a) / a) 0))"
  using a by (simp add: sOSCtoCART_def to_radians_def kepler_zero[OF tol] Rz_def Rx_def Let_def)

lemma circular_rtn:
  assumes a: "0 < a" and w: "0 < w"
  shows "sECItoRTN (State6 (Vec3 a 0 0) (Vec3 0 w 0)) (State6 (Vec3 (a + d) 0 0) (Vec3 0 w 0))
         = Inr (State6 (Vec3 d 0 0) (Vec3 0 (- (d * w / a)) 0))"
proof -
  have na: "sqrt (a * a) = a" using a by simp
  have naw: "sqrt (a * w * (a * w)) = a * w" using a w by simp
  have nd: "\<not> degenerate (State6 (Vec3 a 0 0) (Vec3 0 w 0))"
    using a w by (simp add: degenerate_def norm3_def)
  show ?thesis
    using a w
    by (simp add: sECItoRTN_def rECItoRTN_def rRTNtoECI_def nd Let_def norm3_def na naw
        omega_chief_def power2_eq_square)
qed


lemma transverse_rate_bound:
  assumes a: "0 < a" and GM: "0 < GM" and b: "40000 * GM \<le> a ^ 3"
  shows "100 * (sqrt (GM * a) / a) / a \<le> 1 / 2"
proof -
  have "GM * a \<le> (a ^ 3 / 40000) * a" using a b by (simp add: mult_right_mono)
  also have "\<dots> = (a\<^sup>2 / 200)\<^sup>2" by (simp add: power2_eq_square power3_eq_cube)
  finally have "sqrt (GM * a) \<le> a\<^sup>2 / 200"
    using a by (intro real_le_lsqrt) simp_all
  then have "100 * sqrt (GM * a) \<le> a * a / 2" by (simp add: power2_eq_square)
  then show ?thesis using a by (simp add: field_simps)
qed

text \<open>
  C4: the chief is on the circular equatorial orbit with semi-major axis
  \<open>R_EARTH + 500e3\<close> (all other elements 0, converted by \<open>sOSCtoCART\<close> with degrees), the
  target is 100 m further in inertial x with the same velocity. Then the RTN state has
  radial component 100, transverse, normal, radial-rate and normal-rate 0 (each within
  1e-8) and a transverse rate within 0.5 of 0. The constants are parameters: the
  tolerance of the Kepler solver is non-negative, and \<open>GM \<le> a\<^sup>3 / 40000\<close>, which the
  Earth's values satisfy (the transverse rate is \<open>- 100 \<surd>(GM / a\<^sup>3)\<close>).
\<close>

theorem rtn_circular_scenario:
  assumes tol: "0 \<le> tol" and a: "0 < R_EARTH + 500000" and GM: "0 < GM"
    and b: "40000 * GM \<le> (R_EARTH + 500000) ^ 3"
  shows "\<exists>eci x_rtn.
      sOSCtoCART GM tol max_iter
        \<lparr>oe_a = R_EARTH + 500000, oe_e = 0, oe_i = 0, oe_RAAN = 0, oe_omega = 0, oe_M = 0\<rparr>
        True = Inr eci
    \<and> sECItoRTN eci (State6 (vadd (pos eci) (Vec3 100 0 0)) (vel eci)) = Inr x_rtn
    \<and> \<bar>state_list x_rtn ! 0 - 100\<bar> \<le> 1 / 10 ^ 8
    \<and> \<bar>state_list x_rtn ! 1 - 0\<bar> \<le> 1 / 10 ^ 8
    \<and> \<bar>state_list x_rtn ! 2 - 0\<bar> \<le> 1 / 10 ^ 8
    \<and> \<bar>state_list x_rtn ! 3 - 0\<bar> \<le> 1 / 10 ^ 8
    \<and> \<bar>state_list x_rtn ! 4 - 0\<bar> \<le> 5 / 10
    \<and> \<bar>state_list x_rtn ! 5 - 0\<bar> \<le> 1 / 10 ^ 8"
proof -
  let ?a = "R_EARTH + 500000"
  let ?w = "sqrt (GM * ?a) / ?a"
  have w: "0 < ?w" using a GM by simp
  have neg_abs: "\<And>t::real. 0 < t \<Longrightarrow> t \<le> 1 / 2 \<Longrightarrow> \<bar>- t\<bar> \<le> 5 / 10" by simp
  have "0 < 100 * ?w / ?a" by (intro divide_pos_pos mult_pos_pos w a) simp
  moreover have "100 * ?w / ?a \<le> 1 / 2" by (rule transverse_rate_bound[OF a GM b])
  ultimately have rate: "\<bar>- (100 * ?w / ?a)\<bar> \<le> 5 / 10" by (rule neg_abs)
  have rtn: "sECItoRTN (State6 (Vec3 ?a 0 0) (Vec3 0 ?w 0))
               (State6 (vadd (pos (State6 (Vec3 ?a 0 0) (Vec3 0 ?w 0))) (Vec3 100 0 0))
                  (vel (State6 (Vec3 ?a 0 0) (Vec3 0 ?w 0))))
             = Inr (State6 (Vec3 100 0 0) (Vec3 0 (- (100 * ?w / ?a)) 0))"
    using circular_rtn[OF a w, of 100] by simp
  show ?thesis
    apply (rule exI[of _ "State6 (Vec3 ?a 0 0) (Vec3 0 ?w 0)"])
    apply (rule exI[of _ "State6 (Vec3 100 0 0) (Vec3 0 (- (100 * ?w / ?a)) 0)"])
    apply (simp only: circular_chief[OF tol a] rtn)
    using rate apply simp
    done
qed

theorem rtn_circular_scenario_witness:
  "(0::real) \<le> 1 / 10 ^ 12 \<and> (0::real) < 63781363 / 10 + 500000 \<and> (0::real) < 3986004415 * 10 ^ 5
   \<and> (40000::real) * (3986004415 * 10 ^ 5) \<le> (63781363 / 10 + 500000) ^ 3
   \<and> (\<exists>eci x_rtn.
      sOSCtoCART (3986004415 * 10 ^ 5) (1 / 10 ^ 12) 10
        \<lparr>oe_a = 63781363 / 10 + 500000, oe_e = 0, oe_i = 0, oe_RAAN = 0, oe_omega = 0, oe_M = 0\<rparr>
        True = Inr eci
    \<and> sECItoRTN eci (State6 (vadd (pos eci) (Vec3 100 0 0)) (vel eci)) = Inr x_rtn
    \<and> \<bar>state_list x_rtn ! 0 - 100\<bar> \<le> 1 / 10 ^ 8
    \<and> \<bar>state_list x_rtn ! 1 - 0\<bar> \<le> 1 / 10 ^ 8
    \<and> \<bar>state_list x_rtn ! 2 - 0\<bar> \<le> 1 / 10 ^ 8
    \<and> \<bar>state_list x_rtn ! 3 - 0\<bar> \<le> 1 / 10 ^ 8
    \<and> \<bar>state_list x_rtn ! 4 - 0\<bar> \<le> 5 / 10
    \<and> \<bar>state_list x_rtn ! 5 - 0\<bar> \<le> 1 / 10 ^ 8)"
proof -
  have h1: "(0::real) \<le> 1 / 10 ^ 12" by simp
  have h2: "(0::real) < 63781363 / 10 + 500000" by simp
  have h3: "(0::real) < 3986004415 * 10 ^ 5" by simp
  have h4: "(40000::real) * (3986004415 * 10 ^ 5) \<le> (63781363 / 10 + 500000) ^ 3"
    by (simp add: power3_eq_cube field_simps)
  from rtn_circular_scenario[OF h1 h2 h3 h4, of 10] h1 h2 h3 h4 show ?thesis by blast
qed

section \<open>Properties of the time window\<close>



text \<open>
  C9: the construction of a time window raises \<open>ValueError\<close> and gives no object when
  fewer than two of \<open>t_start\<close>, \<open>t_end\<close>, \<open>t_duration\<close> are truthy, and when \<open>t_start\<close>
  and \<open>t_end\<close> are both given (truthy, converted to datetimes) with \<open>t_end \<le> t_start\<close>.
\<close>

theorem set_times_raises:
  "(truthy_count start end' duration < 2 \<longrightarrow>
      TimeWindowProperties start end' duration = Inl ValueError)
   \<and> (truthy_time (Some a) \<and> truthy_time (Some b) \<and> to_datetime a = Inr s
        \<and> to_datetime b = Inr e \<and> e \<le> s \<longrightarrow>
      TimeWindowProperties (Some a) (Some b) duration = Inl ValueError)"
  by (auto simp add: TimeWindowProperties_def set_times_def truthy_count_def Let_def
      split: if_splits)

theorem set_times_raises_witness:
  "truthy_count (Some (DatetimeArg 5)) (Some (StrArg [] (Inl ValueError))) (Some 0) < 2
   \<and> TimeWindowProperties (Some (DatetimeArg 5)) (Some (StrArg [] (Inl ValueError))) (Some 0)
       = Inl ValueError
   \<and> truthy_time (Some (DatetimeArg 7)) \<and> truthy_time (Some (EpochArg 7))
   \<and> to_datetime (DatetimeArg 7) = Inr 7 \<and> to_datetime (EpochArg 7) = Inr 7 \<and> (7::int) \<le> 7
   \<and> TimeWindowProperties (Some (DatetimeArg 7)) (Some (EpochArg 7)) (Some 3) = Inl ValueError"
  using set_times_raises[where start = "Some (DatetimeArg 5)"
      and end' = "Some (StrArg [] (Inl ValueError))" and duration = "Some 0"]
    set_times_raises[where a = "DatetimeArg 7" and b = "EpochArg 7" and s = 7 and e = 7
      and duration = "Some 3"]
  by (simp add: truthy_count_def)




section \<open>Properties of the access constraints\<close>

lemma validate_field_keeps_error:
  "snd st \<Longrightarrow> snd (validate_field name dflt check input st)"
  by (simp add: validate_field_def split: option.splits sum.splits)

lemma validate_field_no_error:
  "\<not> snd (validate_field name dflt check input st) \<Longrightarrow> \<not> snd st"
  by (simp add: validate_field_def split: option.splits sum.splits)

lemma validate_field_other_key:
  "n \<noteq> name \<Longrightarrow> fst (validate_field name dflt check input st) n = fst st n"
  by (simp add: validate_field_def split: option.splits sum.splits)

lemma look_angle_max_step:
  assumes "\<not> snd (validate_field ''look_angle_max'' 90 look_angle_max_validators (Some mx) st)"
  shows "\<exists>mn. fst st ''look_angle_min'' = Some mn \<and> mn \<noteq> 0 \<and> mn \<le> mx"
  using assms
  by (cases "fst st ''look_angle_min''")
     (auto simp add: validate_field_def look_angle_max_validators_def validate_look_angle_def
        confloat_def Let_def split: if_splits)

lemma look_angle_max_step_value:
  assumes "\<not> snd (validate_field ''look_angle_max'' 90 look_angle_max_validators (Some mx) st)"
  shows "fst (validate_field ''look_angle_max'' 90 look_angle_max_validators (Some mx) st)
           ''look_angle_max'' = Some mx"
  using assms
  by (cases "fst st ''look_angle_min''")
     (auto simp add: validate_field_def look_angle_max_validators_def validate_look_angle_def
        confloat_def Let_def split: if_splits)

lemma elevation_max_step:
  assumes "\<not> snd (validate_field ''elevation_max'' 90 elevation_max_validators (Some mx) st)"
  shows "\<exists>mn. fst st ''elevation_min'' = Some mn \<and> mn \<noteq> 0 \<and> mn \<le> mx"
  using assms
  by (cases "fst st ''elevation_min''")
     (auto simp add: validate_field_def elevation_max_validators_def validate_elevation_def
        confloat_def Let_def split: if_splits)

lemma min_step_default:
  assumes "input = None \<or> input = Some 0"
  shows "fst (validate_field name 0 confloat_validator input st) name = Some 0"
  using assms by (auto simp add: validate_field_def confloat_validator_def confloat_def)

lemma look_angle_max_step_zero:
  assumes "fst st ''look_angle_min'' = Some 0"
  shows "snd (validate_field ''look_angle_max'' 90 look_angle_max_validators (Some mx) st)"
  using assms
  by (simp add: validate_field_def look_angle_max_validators_def validate_look_angle_def
        confloat_def Let_def split: sum.splits)

lemma elevation_max_step_zero:
  assumes "fst st ''elevation_min'' = Some 0"
  shows "snd (validate_field ''elevation_max'' 90 elevation_max_validators (Some mx) st)"
  using assms
  by (simp add: validate_field_def elevation_max_validators_def validate_elevation_def
        confloat_def Let_def split: sum.splits)

lemma AccessConstraints_Inr:
  assumes "AccessConstraints ad ld la_min la_max el_min el_max = Inr obj"
  defines "st1 \<equiv> validate_field ''look_angle_min'' 0 confloat_validator la_min (Map.empty, False)"
  defines "st2 \<equiv> validate_field ''look_angle_max'' 90 look_angle_max_validators la_max st1"
  defines "st3 \<equiv> validate_field ''elevation_min'' 0 confloat_validator el_min st2"
  defines "st4 \<equiv> validate_field ''elevation_max'' 90 elevation_max_validators el_max st3"
  shows "\<not> snd st4"
    and "fst st4 ''look_angle_min'' = Some (look_angle_min obj)"
    and "fst st4 ''look_angle_max'' = Some (look_angle_max obj)"
    and "fst st4 ''elevation_min'' = Some (elevation_min obj)"
    and "fst st4 ''elevation_max'' = Some (elevation_max obj)"
proof -
  have A: "(if snd st4 then Inl ValueError
         else
           (case (fst st4 ''look_angle_min'', fst st4 ''look_angle_max'',
                  fst st4 ''elevation_min'', fst st4 ''elevation_max'') of
              (Some a, Some b, Some c, Some d) \<Rightarrow>
                Inr \<lparr>ascdsc = (case ad of None \<Rightarrow> either | Some x \<Rightarrow> x),
                     look_direction = (case ld of None \<Rightarrow> either_direction | Some x \<Rightarrow> x),
                     look_angle_min = a, look_angle_max = b,
                     elevation_min = c, elevation_max = d\<rparr>
            | _ \<Rightarrow> Inl ValueError)) = Inr obj"
    using assms(1) unfolding AccessConstraints_def Let_def st1_def st2_def st3_def st4_def
    by simp
  show e: "\<not> snd st4" using A by (auto split: if_splits)
  from A e have B: "(case (fst st4 ''look_angle_min'', fst st4 ''look_angle_max'',
                  fst st4 ''elevation_min'', fst st4 ''elevation_max'') of
              (Some a, Some b, Some c, Some d) \<Rightarrow>
                Inr \<lparr>ascdsc = (case ad of None \<Rightarrow> either | Some x \<Rightarrow> x),
                     look_direction = (case ld of None \<Rightarrow> either_direction | Some x \<Rightarrow> x),
                     look_angle_min = a, look_angle_max = b,
                     elevation_min = c, elevation_max = d\<rparr>
            | _ \<Rightarrow> Inl ValueError) = Inr obj" by simp
  from B show "fst st4 ''look_angle_min'' = Some (look_angle_min obj)"
    by (auto split: option.splits)
  from B show "fst st4 ''look_angle_max'' = Some (look_angle_max obj)"
    by (auto split: option.splits)
  from B show "fst st4 ''elevation_min'' = Some (elevation_min obj)"
    by (auto split: option.splits)
  from B show "fst st4 ''elevation_max'' = Some (elevation_max obj)"
    by (auto split: option.splits)
qed


lemma min_step_supplied:
  assumes "fst st name = None"
    and "fst (validate_field name 0 confloat_validator input st) name = Some mn"
    and "mn \<noteq> 0"
  shows "input = Some mn"
  using assms
  by (auto simp add: validate_field_def confloat_validator_def confloat_def
      split: option.splits if_splits)

lemma AccessConstraints_error:
  assumes "snd (validate_field ''elevation_max'' 90 elevation_max_validators el_max
             (validate_field ''elevation_min'' 0 confloat_validator el_min
               (validate_field ''look_angle_max'' 90 look_angle_max_validators la_max
                 (validate_field ''look_angle_min'' 0 confloat_validator la_min
                   (Map.empty, False)))))"
  shows "AccessConstraints ad ld la_min la_max el_min el_max = Inl ValueError"
  using assms unfolding AccessConstraints_def Let_def by simp

lemma look_angle_success:
  assumes ok: "AccessConstraints ad ld la_min (Some mx) el_min el_max = Inr obj"
  shows "la_min = Some (look_angle_min obj) \<and> look_angle_min obj \<noteq> 0
         \<and> look_angle_min obj \<le> mx"
proof -
  let ?st0 = "(Map.empty, False) :: (string \<rightharpoonup> real) \<times> bool"
  let ?st1 = "validate_field ''look_angle_min'' 0 confloat_validator la_min ?st0"
  let ?st2 = "validate_field ''look_angle_max'' 90 look_angle_max_validators (Some mx) ?st1"
  let ?st3 = "validate_field ''elevation_min'' 0 confloat_validator el_min ?st2"
  let ?st4 = "validate_field ''elevation_max'' 90 elevation_max_validators el_max ?st3"
  note r = AccessConstraints_Inr[OF ok]
  have "\<not> snd ?st3" using r(1) by (rule validate_field_no_error)
  then have e2: "\<not> snd ?st2" by (rule validate_field_no_error)
  obtain mn where mn: "fst ?st1 ''look_angle_min'' = Some mn" "mn \<noteq> 0" "mn \<le> mx"
    using look_angle_max_step[OF e2] by blast
  have "fst ?st4 ''look_angle_min'' = fst ?st1 ''look_angle_min''"
    by (simp add: validate_field_other_key)
  with r(2) mn(1) have eq: "look_angle_min obj = mn" by simp
  have "la_min = Some mn"
    by (rule min_step_supplied[OF _ mn(1) mn(2)]) simp
  with eq mn show ?thesis by simp
qed

lemma elevation_success:
  assumes ok: "AccessConstraints ad ld la_min la_max el_min (Some mx) = Inr obj"
  shows "el_min = Some (elevation_min obj) \<and> elevation_min obj \<noteq> 0
         \<and> elevation_min obj \<le> mx"
proof -
  let ?st0 = "(Map.empty, False) :: (string \<rightharpoonup> real) \<times> bool"
  let ?st1 = "validate_field ''look_angle_min'' 0 confloat_validator la_min ?st0"
  let ?st2 = "validate_field ''look_angle_max'' 90 look_angle_max_validators la_max ?st1"
  let ?st3 = "validate_field ''elevation_min'' 0 confloat_validator el_min ?st2"
  let ?st4 = "validate_field ''elevation_max'' 90 elevation_max_validators (Some mx) ?st3"
  note r = AccessConstraints_Inr[OF ok]
  obtain mn where mn: "fst ?st3 ''elevation_min'' = Some mn" "mn \<noteq> 0" "mn \<le> mx"
    using elevation_max_step[OF r(1)] by blast
  have "fst ?st4 ''elevation_min'' = fst ?st3 ''elevation_min''"
    by (simp add: validate_field_other_key)
  with r(4) mn(1) have eq: "elevation_min obj = mn" by simp
  have none: "fst ?st2 ''elevation_min'' = None"
    by (simp add: validate_field_other_key)
  have "el_min = Some mn"
    by (rule min_step_supplied[OF none mn(1) mn(2)])
  with eq mn show ?thesis by simp
qed

lemma look_angle_zero_raises:
  assumes "la_min = None \<or> la_min = Some 0"
  shows "AccessConstraints ad ld la_min (Some mx) el_min el_max = Inl ValueError"
  by (rule AccessConstraints_error, rule validate_field_keeps_error,
      rule validate_field_keeps_error, rule look_angle_max_step_zero,
      rule min_step_default, rule assms)

lemma elevation_zero_raises:
  assumes "el_min = None \<or> el_min = Some 0"
  shows "AccessConstraints ad ld la_min la_max el_min (Some mx) = Inl ValueError"
  by (rule AccessConstraints_error, rule elevation_max_step_zero,
      rule min_step_default, rule assms)

lemma AccessConstraints_example:
  "AccessConstraints None None (Some 10) (Some 45) (Some 5) (Some 80) =
     Inr \<lparr>ascdsc = either, look_direction = either_direction, look_angle_min = 10,
          look_angle_max = 45, elevation_min = 5, elevation_max = 80\<rparr>"
  by (simp add: AccessConstraints_def validate_field_def look_angle_max_validators_def
      elevation_max_validators_def confloat_validator_def confloat_def validate_look_angle_def
      validate_elevation_def Let_def)

text \<open>
  C10: when \<open>look_angle_max\<close> is supplied, the construction succeeds only if
  \<open>look_angle_min\<close> was supplied, is not zero and is not greater than \<open>look_angle_max\<close>;
  with \<open>look_angle_min\<close> left at its default or given as 0.0 it raises \<open>ValueError\<close>
  whatever \<open>look_angle_max\<close> is. The same holds of \<open>elevation_max\<close> and
  \<open>elevation_min\<close>.
\<close>

theorem access_constraints_max_needs_nonzero_min:
  "(AccessConstraints ad ld la_min (Some mx) el_min el_max = Inr obj \<longrightarrow>
      la_min = Some (look_angle_min obj) \<and> look_angle_min obj \<noteq> 0 \<and> look_angle_min obj \<le> mx)
   \<and> (la_min = None \<or> la_min = Some 0 \<longrightarrow>
      AccessConstraints ad ld la_min (Some mx) el_min el_max = Inl ValueError)
   \<and> (AccessConstraints ad ld la_min' la_max' el_min' (Some ex) = Inr obj' \<longrightarrow>
      el_min' = Some (elevation_min obj') \<and> elevation_min obj' \<noteq> 0 \<and> elevation_min obj' \<le> ex)
   \<and> (el_min' = None \<or> el_min' = Some 0 \<longrightarrow>
      AccessConstraints ad ld la_min' la_max' el_min' (Some ex) = Inl ValueError)"
proof (intro conjI impI)
  assume "AccessConstraints ad ld la_min (Some mx) el_min el_max = Inr obj"
  then show "la_min = Some (look_angle_min obj)" "look_angle_min obj \<noteq> 0"
    "look_angle_min obj \<le> mx"
    using look_angle_success by simp_all
next
  assume "la_min = None \<or> la_min = Some 0"
  then show "AccessConstraints ad ld la_min (Some mx) el_min el_max = Inl ValueError"
    by (rule look_angle_zero_raises)
next
  assume "AccessConstraints ad ld la_min' la_max' el_min' (Some ex) = Inr obj'"
  then show "el_min' = Some (elevation_min obj')" "elevation_min obj' \<noteq> 0"
    "elevation_min obj' \<le> ex"
    using elevation_success by simp_all
next
  assume "el_min' = None \<or> el_min' = Some 0"
  then show "AccessConstraints ad ld la_min' la_max' el_min' (Some ex) = Inl ValueError"
    by (rule elevation_zero_raises)
qed

theorem access_constraints_max_needs_nonzero_min_witness:
  "AccessConstraints None None (Some 10) (Some 45) (Some 5) (Some 80) =
     Inr \<lparr>ascdsc = either, look_direction = either_direction, look_angle_min = 10,
          look_angle_max = 45, elevation_min = 5, elevation_max = 80\<rparr>
   \<and> AccessConstraints None None None (Some 45) None None = Inl ValueError
   \<and> AccessConstraints None None (Some 0) (Some 45) None None = Inl ValueError
   \<and> AccessConstraints None None None None None (Some 45) = Inl ValueError
   \<and> AccessConstraints None None None None (Some 0) (Some 45) = Inl ValueError"
  using AccessConstraints_example
    access_constraints_max_needs_nonzero_min[where la_min = None and ad = None and ld = None
      and mx = 45 and el_min = None and el_max = None and la_min' = None and la_max' = None
      and el_min' = None and ex = 45]
    access_constraints_max_needs_nonzero_min[where la_min = "Some 0" and ad = None and ld = None
      and mx = 45 and el_min = None and el_max = None and la_min' = None and la_max' = None
      and el_min' = "Some 0" and ex = 45]
    access_constraints_max_needs_nonzero_min[where la_min = "Some 10" and ad = None
      and ld = None and mx = 45 and el_min = "Some 5" and el_max = "Some 80"
      and la_min' = "Some 10" and la_max' = "Some 45" and el_min' = "Some 5" and ex = 80
      and obj = "\<lparr>ascdsc = either, look_direction = either_direction, look_angle_min = 10,
          look_angle_max = 45, elevation_min = 5, elevation_max = 80\<rparr>"
      and obj' = "\<lparr>ascdsc = either, look_direction = either_direction, look_angle_min = 10,
          look_angle_max = 45, elevation_min = 5, elevation_max = 80\<rparr>"]
  by simp

section \<open>Properties of collects and contacts\<close>

lemma length_2_cases: "length c = 2 \<Longrightarrow> \<exists>a b. c = [a, b]"
  by (auto simp add: length_Suc_conv numeral_2_eq_2)

lemma length_3_cases: "length c = 3 \<Longrightarrow> \<exists>a b d. c = [a, b, d]"
  by (auto simp add: length_Suc_conv numeral_3_eq_3)

lemma values_center:
  "length c = 2 \<or> length c = 3 \<Longrightarrow>
   (case conlist 2 3 c of Inl err \<Rightarrow> Map.empty | Inr c' \<Rightarrow> [''center'' \<mapsto> c']) = [''center'' \<mapsto> c]"
  by (auto simp add: conlist_def)

lemma Collect_derive_two:
  assumes "ce = None \<or> ce = Some []"
  shows "Collect_set_center_ecef ra fl ce [''center'' \<mapsto> [lat, lon]] =
           sGEODtoECEF ra fl [lat, lon, 0] True"
  using assms by (auto simp add: Collect_set_center_ecef_def)


lemma Contact_derive_two:
  assumes "ce = None \<or> ce = Some []"
  shows "Contact_set_center_ecef ra fl ce [''center'' \<mapsto> [lat, lon]] =
           sGEODtoECEF ra fl [lat, lon, 0] True"
  using assms by (auto simp add: Contact_set_center_ecef_def)

lemma Collect_derive_three:
  assumes "ce = None \<or> ce = Some []"
  shows "Collect_set_center_ecef ra fl ce [''center'' \<mapsto> [lat, lon, alt]] =
           sGEODtoECEF ra fl [lat, lon, alt] True"
  using assms by (auto simp add: Collect_set_center_ecef_def)

lemma Contact_derive_three:
  assumes "ce = None \<or> ce = Some []"
  shows "Contact_set_center_ecef ra fl ce [''center'' \<mapsto> [lat, lon, alt]] =
           sGEODtoECEF ra fl [lat, lon, alt] True"
  using assms by (auto simp add: Contact_set_center_ecef_def)

lemma Collect_keep: "w \<noteq> [] \<Longrightarrow> Collect_set_center_ecef ra fl (Some w) values = Inr w"
  by (simp add: Collect_set_center_ecef_def)

lemma Contact_keep: "w \<noteq> [] \<Longrightarrow> Contact_set_center_ecef ra fl (Some w) values = Inr w"
  by (simp add: Contact_set_center_ecef_def)

lemma length_geodetic_point: "length (geodetic_point ra fl lat lon alt) = 3"
  by (simp add: geodetic_point_def Let_def)

lemma center_validation_Inr:
  assumes c: "length c = 2 \<or> length c = 3"
    and v: "validator ce [''center'' \<mapsto> c] = Inr v"
    and l: "length v = 3"
  shows "center_validation validator (Some c) ce = Inr \<lparr>center = c, center_ecef = v\<rparr>"
proof -
  have 1: "conlist 3 3 v = Inr v" using l by (simp add: conlist_def)
  show ?thesis
    unfolding center_validation_def Let_def option.case values_center[OF c] v
    by (simp add: 1)
qed

lemma derived:
  assumes ce: "ce = None \<or> ce = Some []"
    and c: "length c = 2 \<or> length c = 3"
    and k1: "Collect_set_center_ecef ra fl ce [''center'' \<mapsto> c] = sGEODtoECEF ra fl c3 True"
    and k2: "Contact_set_center_ecef ra fl ce [''center'' \<mapsto> c] = sGEODtoECEF ra fl c3 True"
    and g: "sGEODtoECEF ra fl c3 True = Inr v"
    and l: "length v = 3"
  shows "Collect_center ra fl (Some c) ce = Inr \<lparr>center = c, center_ecef = v\<rparr>"
    and "Contact_center ra fl (Some c) ce = Inr \<lparr>center = c, center_ecef = v\<rparr>"
proof -
  show "Collect_center ra fl (Some c) ce = Inr \<lparr>center = c, center_ecef = v\<rparr>"
    unfolding Collect_center_def using k1 g by (intro center_validation_Inr[OF c _ l]) simp
  show "Contact_center ra fl (Some c) ce = Inr \<lparr>center = c, center_ecef = v\<rparr>"
    unfolding Contact_center_def using k2 g by (intro center_validation_Inr[OF c _ l]) simp
qed

lemma derived_two:
  assumes ce: "ce = None \<or> ce = Some []"
  shows "\<exists>v. sGEODtoECEF ra fl [lat, lon, 0] True = Inr v
     \<and> Collect_center ra fl (Some [lat, lon]) ce = Inr \<lparr>center = [lat, lon], center_ecef = v\<rparr>
     \<and> Contact_center ra fl (Some [lat, lon]) ce = Inr \<lparr>center = [lat, lon], center_ecef = v\<rparr>"
proof -
  let ?v = "geodetic_point ra fl (to_radians lat True) (to_radians lon True) 0"
  have g: "sGEODtoECEF ra fl [lat, lon, 0] True = Inr ?v" by simp
  have c: "length [lat, lon] = 2 \<or> length [lat, lon] = 3" by simp
  note d = derived[OF ce c Collect_derive_two[OF ce] Contact_derive_two[OF ce] g
      length_geodetic_point]
  from g d show ?thesis by blast
qed

lemma derived_three:
  assumes ce: "ce = None \<or> ce = Some []"
  shows "\<exists>v. sGEODtoECEF ra fl [lat, lon, alt] True = Inr v
     \<and> Collect_center ra fl (Some [lat, lon, alt]) ce =
         Inr \<lparr>center = [lat, lon, alt], center_ecef = v\<rparr>
     \<and> Contact_center ra fl (Some [lat, lon, alt]) ce =
         Inr \<lparr>center = [lat, lon, alt], center_ecef = v\<rparr>"
proof -
  let ?v = "geodetic_point ra fl (to_radians lat True) (to_radians lon True) alt"
  have g: "sGEODtoECEF ra fl [lat, lon, alt] True = Inr ?v" by simp
  have c: "length [lat, lon, alt] = 2 \<or> length [lat, lon, alt] = 3" by simp
  note d = derived[OF ce c Collect_derive_three[OF ce] Contact_derive_three[OF ce] g
      length_geodetic_point]
  from g d show ?thesis by blast
qed

lemma kept:
  assumes c: "length c = 2 \<or> length c = 3" and w: "length w = 3"
  shows "Collect_center ra fl (Some c) (Some w) = Inr \<lparr>center = c, center_ecef = w\<rparr>"
    and "Contact_center ra fl (Some c) (Some w) = Inr \<lparr>center = c, center_ecef = w\<rparr>"
proof -
  have ne: "w \<noteq> []" using w by auto
  show "Collect_center ra fl (Some c) (Some w) = Inr \<lparr>center = c, center_ecef = w\<rparr>"
    unfolding Collect_center_def
    by (rule center_validation_Inr[OF c _ w]) (rule Collect_keep[OF ne])
  show "Contact_center ra fl (Some c) (Some w) = Inr \<lparr>center = c, center_ecef = w\<rparr>"
    unfolding Contact_center_def
    by (rule center_validation_Inr[OF c _ w]) (rule Contact_keep[OF ne])
qed

lemma equator_point:
  "geodetic_point 6378137 (1000000000 / 298257223563) (to_radians 0 True) (to_radians 0 True) 0
     = [6378137, 0, 0]"
  by (simp add: geodetic_point_def to_radians_def Let_def)

text \<open>
  C6, as the code has it: when \<open>center_ecef\<close> is not supplied, is \<open>None\<close> or is empty, the
  field of a collect and of a contact is the Earth-fixed point of the geodetic center in
  degrees, its altitude 0 when the center has two elements; when a list of three
  elements is supplied it is kept as it is (the validator returns any non-empty list
  unchanged).
\<close>

theorem center_ecef_derived_or_kept:
  "(ce = None \<or> ce = Some [] \<longrightarrow>
      (\<exists>v. sGEODtoECEF ra fl [lat, lon, 0] True = Inr v
         \<and> Collect_center ra fl (Some [lat, lon]) ce =
             Inr \<lparr>center = [lat, lon], center_ecef = v\<rparr>
         \<and> Contact_center ra fl (Some [lat, lon]) ce =
             Inr \<lparr>center = [lat, lon], center_ecef = v\<rparr>)
    \<and> (\<exists>v. sGEODtoECEF ra fl [lat, lon, alt] True = Inr v
         \<and> Collect_center ra fl (Some [lat, lon, alt]) ce =
             Inr \<lparr>center = [lat, lon, alt], center_ecef = v\<rparr>
         \<and> Contact_center ra fl (Some [lat, lon, alt]) ce =
             Inr \<lparr>center = [lat, lon, alt], center_ecef = v\<rparr>))
   \<and> ((length c = 2 \<or> length c = 3) \<and> length w = 3 \<longrightarrow>
        Collect_center ra fl (Some c) (Some w) = Inr \<lparr>center = c, center_ecef = w\<rparr>
      \<and> Contact_center ra fl (Some c) (Some w) = Inr \<lparr>center = c, center_ecef = w\<rparr>)
   \<and> (w \<noteq> [] \<longrightarrow>
        Collect_set_center_ecef ra fl (Some w) vals = Inr w
      \<and> Contact_set_center_ecef ra fl (Some w) vals = Inr w)"
proof (intro conjI impI)
  assume ce: "ce = None \<or> ce = Some []"
  show "\<exists>v. sGEODtoECEF ra fl [lat, lon, 0] True = Inr v
         \<and> Collect_center ra fl (Some [lat, lon]) ce =
             Inr \<lparr>center = [lat, lon], center_ecef = v\<rparr>
         \<and> Contact_center ra fl (Some [lat, lon]) ce =
             Inr \<lparr>center = [lat, lon], center_ecef = v\<rparr>"
    by (rule derived_two[OF ce])
  show "\<exists>v. sGEODtoECEF ra fl [lat, lon, alt] True = Inr v
         \<and> Collect_center ra fl (Some [lat, lon, alt]) ce =
             Inr \<lparr>center = [lat, lon, alt], center_ecef = v\<rparr>
         \<and> Contact_center ra fl (Some [lat, lon, alt]) ce =
             Inr \<lparr>center = [lat, lon, alt], center_ecef = v\<rparr>"
    by (rule derived_three[OF ce])
next
  assume a: "(length c = 2 \<or> length c = 3) \<and> length w = 3"
  then show "Collect_center ra fl (Some c) (Some w) = Inr \<lparr>center = c, center_ecef = w\<rparr>"
    using kept(1) by blast
  from a show "Contact_center ra fl (Some c) (Some w) = Inr \<lparr>center = c, center_ecef = w\<rparr>"
    using kept(2) by blast
next
  assume "w \<noteq> []"
  then show "Collect_set_center_ecef ra fl (Some w) vals = Inr w"
    "Contact_set_center_ecef ra fl (Some w) vals = Inr w"
    by (simp_all add: Collect_keep Contact_keep)
qed

theorem center_ecef_derived_or_kept_witness:
  "(\<exists>v. sGEODtoECEF 6378137 (1000000000 / 298257223563) [10, 20, 0] True = Inr v
       \<and> Collect_center 6378137 (1000000000 / 298257223563) (Some [10, 20]) None =
           Inr \<lparr>center = [10, 20], center_ecef = v\<rparr>
       \<and> Contact_center 6378137 (1000000000 / 298257223563) (Some [10, 20]) None =
           Inr \<lparr>center = [10, 20], center_ecef = v\<rparr>)
   \<and> (\<exists>v. sGEODtoECEF 6378137 (1000000000 / 298257223563) [10, 20, 30] True = Inr v
       \<and> Collect_center 6378137 (1000000000 / 298257223563) (Some [10, 20, 30]) None =
           Inr \<lparr>center = [10, 20, 30], center_ecef = v\<rparr>
       \<and> Contact_center 6378137 (1000000000 / 298257223563) (Some [10, 20, 30]) None =
           Inr \<lparr>center = [10, 20, 30], center_ecef = v\<rparr>)
   \<and> Collect_center 6378137 (1000000000 / 298257223563) (Some [10, 20]) (Some [4, 5, 6]) =
       Inr \<lparr>center = [10, 20], center_ecef = [4, 5, 6]\<rparr>
   \<and> Contact_center 6378137 (1000000000 / 298257223563) (Some [10, 20]) (Some [4, 5, 6]) =
       Inr \<lparr>center = [10, 20], center_ecef = [4, 5, 6]\<rparr>
   \<and> Collect_set_center_ecef 6378137 (1000000000 / 298257223563) (Some [4, 5, 6]) Map.empty =
       Inr [4, 5, 6]
   \<and> Contact_set_center_ecef 6378137 (1000000000 / 298257223563) (Some [4, 5, 6]) Map.empty =
       Inr [4, 5, 6]"
proof -
  have h1: "(None :: real list option) = None \<or> (None :: real list option) = Some []"
    by simp
  have h2: "(length [10, 20 :: real] = 2 \<or> length [10, 20 :: real] = 3)
            \<and> length [4, 5, 6 :: real] = 3" by simp
  have h3: "[4, 5, 6 :: real] \<noteq> []" by simp
  note t = center_ecef_derived_or_kept[where ce = None and ra = 6378137
      and fl = "1000000000 / 298257223563" and lat = 10 and lon = 20 and alt = 30
      and c = "[10, 20]" and w = "[4, 5, 6]" and vals = "Map.empty"]
  from t h1 h2 h3 show ?thesis by blast
qed

text \<open>
  C6 as stated fails: an empty list supplied as \<open>center_ecef\<close> is not kept, the point
  derived from \<open>center\<close> takes its place.
\<close>

theorem center_ecef_empty_list_counterexample:
  "Collect_center 6378137 (1000000000 / 298257223563) (Some [0, 0]) (Some [])
     = Inr \<lparr>center = [0, 0], center_ecef = [6378137, 0, 0]\<rparr>
   \<and> Contact_center 6378137 (1000000000 / 298257223563) (Some [0, 0]) (Some [])
     = Inr \<lparr>center = [0, 0], center_ecef = [6378137, 0, 0]\<rparr>
   \<and> [6378137, 0, 0] \<noteq> ([] :: real list)"
proof -
  have ce: "Some [] = None \<or> Some [] = Some ([] :: real list)" by simp
  have c: "length [0, 0 :: real] = 2 \<or> length [0, 0 :: real] = 3" by simp
  have g: "sGEODtoECEF 6378137 (1000000000 / 298257223563) [0, 0, 0] True = Inr [6378137, 0, 0]"
    by (simp add: equator_point)
  have l: "length [6378137, 0, 0 :: real] = 3" by simp
  note d = derived[OF ce c Collect_derive_two[OF ce] Contact_derive_two[OF ce] g l]
  from d show ?thesis by simp
qed

section \<open>Properties of the JSON encoders\<close>

lemma length_fixed_width [simp]: "length (fixed_width w n) = w"
  by (induction w arbitrary: n) simp_all

lemma fixed_width_zero: "fixed_width w 0 = replicate w (CHR ''0'')"
  by (induction w) (simp_all add: digit_char_def replicate_append_same)

lemma length_str_nat: "n < 10 ^ w \<Longrightarrow> 0 < w \<Longrightarrow> length (str_nat n) \<le> w"
proof (induction w arbitrary: n)
  case 0 then show ?case by simp
next
  case (Suc w)
  show ?case
  proof (cases "n < 10")
    case True then show ?thesis by (simp add: str_nat.simps[of n])
  next
    case False
    then have w: "0 < w" using Suc.prems by (cases w) auto
    have "n div 10 < 10 ^ w" using Suc.prems by (simp add: less_mult_imp_div_less mult.commute)
    from Suc.IH[OF this w] False show ?thesis by (simp add: str_nat.simps[of n])
  qed
qed

lemma zfill_str_nat: "n < 10 ^ w \<Longrightarrow> 0 < w \<Longrightarrow> zfill w (str_nat n) = fixed_width w n"
proof (induction w arbitrary: n)
  case 0 then show ?case by simp
next
  case (Suc w)
  show ?case
  proof (cases "n < 10")
    case True
    then show ?thesis
      by (simp add: str_nat.simps[of n] zfill_def fixed_width_zero)
  next
    case False
    then have w: "0 < w" using Suc.prems by (cases w) auto
    have d: "n div 10 < 10 ^ w" using Suc.prems by (simp add: less_mult_imp_div_less mult.commute)
    have l: "length (str_nat (n div 10)) \<le> w" by (rule length_str_nat[OF d w])
    have "zfill (Suc w) (str_nat n) = zfill w (str_nat (n div 10)) @ [digit_char (n mod 10)]"
      using False l by (simp add: str_nat.simps[of n] zfill_def Suc_diff_le)
    then show ?thesis using Suc.IH[OF d w] by simp
  qed
qed

lemma fixed_width_split:
  "fixed_width (a + b) n = fixed_width a (n div 10 ^ b) @ fixed_width b n"
proof (induction b arbitrary: n)
  case 0 then show ?case by simp
next
  case (Suc b)
  have "(n div 10) div 10 ^ b = n div 10 ^ Suc b"
    by (simp add: div_mult2_eq)
  with Suc[of "n div 10"] show ?case by simp
qed

lemma fixed_width_mod: "fixed_width b (n mod 10 ^ b) = fixed_width b n"
proof (induction b arbitrary: n)
  case 0 then show ?case by simp
next
  case (Suc b)
  have 1: "(n mod 10 ^ Suc b) mod 10 = n mod 10"
    by (simp add: mod_mod_cancel)
  have 2: "(n mod 10 ^ Suc b) div 10 = (n div 10) mod 10 ^ b"
    by (simp add: mod_mult2_eq)
  show ?case using Suc[of "n div 10"] by (simp add: 1 2 del: power_Suc)
qed

lemma drop_last_append: "length b = n \<Longrightarrow> drop_last n (a @ b) = a"
  by (simp add: drop_last_def)

lemma microseconds_split:
  assumes "us < 1000000"
  shows "zfill 6 (str_nat us) = zfill 3 (str_nat (us div 1000)) @ fixed_width 3 us"
proof -
  have 1: "us < 10 ^ 6" using assms by simp
  have 2: "us div 1000 < 10 ^ 3" using assms by simp
  have "zfill 6 (str_nat us) = fixed_width (3 + 3) us"
    using zfill_str_nat[OF 1] by simp
  also have "\<dots> = fixed_width 3 (us div 10 ^ 3) @ fixed_width 3 us"
    by (rule fixed_width_split)
  also have "fixed_width 3 (us div 10 ^ 3) = zfill 3 (str_nat (us div 1000))"
    using zfill_str_nat[OF 2] by simp
  finally show ?thesis .
qed

text \<open>
  C8: the encoder of a datetime gives the date and time of the format
  \<open>'%Y-%m-%dT%H:%M:%S.%f'\<close> with the six digits of the microseconds cut to the three of
  the milliseconds (the microseconds divided by 1000, rounded down) and a \<open>Z\<close> appended;
  the encoder of a numpy array gives its nested lists.
\<close>

theorem json_encoders_datetime_ndarray:
  "(microsecond v < 1000000 \<longrightarrow>
      json_encoders (DatetimeValue v) =
        JString (strftime_date_time v @ zfill 3 (str_nat (microsecond v div 1000)) @ ''Z''))
   \<and> json_encoders (NdarrayValue a) = tolist a
   \<and> tolist (Array xs) = JArray (map tolist xs)
   \<and> tolist (Scalar x) = JNumber x"
proof (intro conjI impI)
  assume us: "microsecond v < 1000000"
  have "drop_last 3 (strftime v)
      = drop_last 3 ((strftime_date_time v @ zfill 3 (str_nat (microsecond v div 1000)))
          @ fixed_width 3 (microsecond v))"
    by (simp add: strftime_def microseconds_split[OF us])
  also have "\<dots> = strftime_date_time v @ zfill 3 (str_nat (microsecond v div 1000))"
    by (rule drop_last_append) simp
  finally show "json_encoders (DatetimeValue v) =
        JString (strftime_date_time v @ zfill 3 (str_nat (microsecond v div 1000)) @ ''Z'')"
    by simp
qed simp_all

lemma strftime_example:
  "strftime_date_time \<lparr>year = 2020, month = 11, day = 12, hour = 13, minute = 14, second = 15,
     microsecond = 6789\<rparr> = ''2020-11-12T13:14:15.''"
  "zfill 3 (str_nat 6) = ''006''"
  by code_simp+

theorem json_encoders_datetime_ndarray_witness:
  "json_encoders (DatetimeValue \<lparr>year = 2020, month = 11, day = 12, hour = 13, minute = 14,
     second = 15, microsecond = 6789\<rparr>) = JString ''2020-11-12T13:14:15.006Z''
   \<and> json_encoders (NdarrayValue (Array [Array [Scalar 1, Scalar 2], Array [Scalar 3, Scalar 4]]))
       = JArray [JArray [JNumber 1, JNumber 2], JArray [JNumber 3, JNumber 4]]"
  using json_encoders_datetime_ndarray[where v = "\<lparr>year = 2020, month = 11, day = 12,
      hour = 13, minute = 14, second = 15, microsecond = 6789\<rparr>"]
  by (simp add: strftime_example)

end
